theory Spec2Isabelle
  imports Main "HOL-Library.Sublist" "HOL-Library.AList" "HOL-Library.Signed_Division"
begin

section \<open>Go library functions used by the tracers\<close>

text \<open>
  Go strings are byte sequences; \<open>string\<close> (a \<open>char list\<close>) is read the same way.
  \<open>strings.ToUpper\<close> and \<open>strings.TrimSpace\<close> are modelled on ASCII text (their
  fast path in the Go library): letters \<open>a..z\<close> are raised, the six ASCII white-space
  bytes are trimmed, every other byte is left alone. \<open>strings.Index\<close>,
  \<open>strings.ReplaceAll\<close> and \<open>strings.HasPrefix\<close> work on bytes and are exact.
\<close>

abbreviation (input) quote :: char where
  "quote \<equiv> CHR 0x27"

definition upperByte :: "char \<Rightarrow> char" where
  "upperByte c =
     (case map_of (zip ''abcdefghijklmnopqrstuvwxyz'' ''ABCDEFGHIJKLMNOPQRSTUVWXYZ'') c of
        Some u \<Rightarrow> u
      | None \<Rightarrow> c)"

definition ToUpper :: "string \<Rightarrow> string" where
  "ToUpper s = map upperByte s"

definition asciiSpace :: "char \<Rightarrow> bool" where
  "asciiSpace c = (c \<in> set [CHR 0x09, CHR 0x0A, CHR 0x0B, CHR 0x0C, CHR 0x0D, CHR 0x20])"

definition TrimSpace :: "string \<Rightarrow> string" where
  "TrimSpace s = rev (dropWhile asciiSpace (rev (dropWhile asciiSpace s)))"

definition HasPrefix :: "string \<Rightarrow> string \<Rightarrow> bool" where
  "HasPrefix s pre = prefix pre s"

text \<open>\<open>strings.Index\<close>: the byte offset of the first occurrence, \<open>-1\<close> when there is none.\<close>

fun Index :: "string \<Rightarrow> string \<Rightarrow> int" where
  "Index [] sub = (if sub = [] then 0 else - 1)"
| "Index (c # cs) sub =
     (if prefix sub (c # cs) then 0
      else (let r = Index cs sub in if r = - 1 then - 1 else r + 1))"

text \<open>
  \<open>strings.ReplaceAll\<close>: non-overlapping occurrences of \<open>old\<close> are replaced from the
  left; an empty \<open>old\<close> matches before every byte and at the end.
\<close>

function ReplaceAll :: "string \<Rightarrow> string \<Rightarrow> string \<Rightarrow> string" where
  "ReplaceAll s old new =
     (if old = [] then new @ concat (map (\<lambda>c. c # new) s)
      else if s = [] then []
      else if prefix old s then new @ ReplaceAll (drop (length old) s) old new
      else hd s # ReplaceAll (tl s) old new)"
  by pat_completeness auto
termination
  by (relation "measure (\<lambda>(s, old, new). length s)") auto

declare ReplaceAll.simps [simp del]

text \<open>Decimal digits of a natural number and of an integer (\<open>%v\<close> on a Go integer).\<close>

fun showNat :: "nat \<Rightarrow> string" where
  "showNat n =
     (if n < 10 then [''0123456789'' ! n]
      else showNat (n div 10) @ [''0123456789'' ! (n mod 10)])"

declare showNat.simps [simp del]

definition showInt :: "int \<Rightarrow> string" where
  "showInt i = (if i < 0 then CHR ''-'' # showNat (nat (- i)) else showNat (nat i))"

text \<open>
  \<open>time.Time\<close> as the calendar fields that \<open>Format\<close> reads. \<open>appendInt\<close> is the
  helper of package \<open>time\<close>: a sign, then the digits padded with zeros to the width.
  \<open>Format\<close> is \<open>t.Format("2006-01-02 15:04:05")\<close>.
\<close>

record Time =
  year :: int
  month :: nat
  day :: nat
  hour :: nat
  minute :: nat
  second :: nat

definition appendInt :: "int \<Rightarrow> nat \<Rightarrow> string" where
  "appendInt x width =
     (let ds = showNat (nat \<bar>x\<bar>)
      in (if x < 0 then ''-'' else []) @ replicate (width - length ds) CHR ''0'' @ ds)"

definition Format :: "Time \<Rightarrow> string" where
  "Format t =
     appendInt (year t) 4 @ ''-'' @ appendInt (int (month t)) 2 @ ''-'' @
     appendInt (int (day t)) 2 @ '' '' @ appendInt (int (hour t)) 2 @ '':'' @
     appendInt (int (minute t)) 2 @ '':'' @ appendInt (int (second t)) 2"

section \<open>The relational statement and its bound values\<close>

text \<open>
  A bound value of \<open>Statement.Vars\<close> (an \<open>interface{}\<close>), by the cases of the type
  switch in \<open>getFullSQL\<close>. \<open>VInt\<close> is a Go integer; \<open>VOther s\<close> is a value of any
  other type, given by the text \<open>s\<close> that \<open>fmt.Sprintf("%v", v)\<close> prints for it.
\<close>

datatype gvalue =
    VString string
  | VBytes string
  | VTime Time
  | VNil
  | VInt int
  | VOther string

datatype model = ModelRef nat

datatype gocontext = Background | Caller nat | WithSpan gocontext nat

datatype goerror = GoError string

fun ErrorMsg :: "goerror \<Rightarrow> string" where
  "ErrorMsg (GoError m) = m"

text \<open>What the instance store holds: a start time (in nanoseconds), a span, or anything else.\<close>

datatype anyval = ATime int | ASpan nat | AOther string

record statement =
  SQL :: string
  Vars :: "gvalue list"
  Model :: "model option"
  Table :: string
  Context :: "gocontext option"

text \<open>
  \<open>*gorm.DB\<close>: the statement pointer (\<open>None\<close> is nil), the operation's error, and the
  instance-scoped store that \<open>InstanceSet\<close> and \<open>InstanceGet\<close> write and read. The
  store is kept with the handle, one value per key, so both calls are total here, also on
  a handle whose statement is nil.
\<close>

record DB =
  Statement :: "statement option"
  Error :: "goerror option"
  Settings :: "(string \<times> anyval) list"

definition InstanceSet :: "DB \<Rightarrow> string \<Rightarrow> anyval \<Rightarrow> DB" where
  "InstanceSet db key v = db\<lparr>Settings := AList.update key v (Settings db)\<rparr>"

definition InstanceGet :: "DB \<Rightarrow> string \<Rightarrow> anyval option" where
  "InstanceGet db key = map_of (Settings db) key"

section \<open>Classification and rendering\<close>

text \<open>
  The block \<open>if len(sql) > 0 { ... }\<close> of \<open>getOperationType\<close>: \<open>Some\<close> label where
  the switch returns, \<open>None\<close> where control falls through to the code below it.
\<close>

definition sqlPrefixType :: "string \<Rightarrow> string option" where
  "sqlPrefixType sql =
     (if length sql > 0 then
        (let sqlUpper = ToUpper (TrimSpace sql)
         in if length sqlUpper \<ge> 6 then
              (if HasPrefix sqlUpper ''SELECT'' then Some ''select''
               else if HasPrefix sqlUpper ''INSERT'' then Some ''insert''
               else if HasPrefix sqlUpper ''UPDATE'' then Some ''update''
               else if HasPrefix sqlUpper ''DELETE'' then Some ''delete''
               else None)
            else None)
      else None)"

definition getOperationType :: "DB \<Rightarrow> string" where
  "getOperationType db =
     (case Statement db of
        None \<Rightarrow> ''unknown''
      | Some st \<Rightarrow>
          (case sqlPrefixType (SQL st) of
             Some label \<Rightarrow> label
           | None \<Rightarrow>
               (if Model st = None \<and> Table st = [] then ''other'' else ''query'')))"

text \<open>The type switch of \<open>getFullSQL\<close>: the text that replaces one placeholder.\<close>

fun formatParam :: "gvalue \<Rightarrow> string" where
  "formatParam (VString v) = [quote] @ ReplaceAll v [quote] [quote, quote] @ [quote]"
| "formatParam (VBytes v) = [quote] @ ReplaceAll v [quote] [quote, quote] @ [quote]"
| "formatParam (VTime v) = [quote] @ Format v @ [quote]"
| "formatParam VNil = ''NULL''"
| "formatParam (VInt v) = showInt v"
| "formatParam (VOther v) = v"

text \<open>
  The loop of \<open>getFullSQL\<close>: \<open>result\<close> is the text so far, the list holds
  \<open>Vars[paramIndex:]\<close>. Each round looks for the first \<open>?\<close> of \<open>result\<close>.
\<close>

fun substituteLoop :: "string \<Rightarrow> gvalue list \<Rightarrow> string" where
  "substituteLoop result [] = result"
| "substituteLoop result (param # rest) =
     (let pos = Index result ''?''
      in if pos = - 1 then result
         else substituteLoop
                (take (nat pos) result @ formatParam param @ drop (nat pos + 1) result) rest)"

definition getFullSQL :: "DB \<Rightarrow> string" where
  "getFullSQL db =
     (case Statement db of
        None \<Rightarrow> []
      | Some st \<Rightarrow>
          (if SQL st = [] then []
           else if length (Vars st) = 0 then SQL st
           else substituteLoop (SQL st) (Vars st)))"

text \<open>
  The renderer as the specification words it: one pass over the template from the left,
  each \<open>?\<close> of the template taking the next unconsumed parameter; text that was
  substituted is never scanned again.
\<close>

fun render_spec :: "string \<Rightarrow> gvalue list \<Rightarrow> string" where
  "render_spec [] ps = []"
| "render_spec (c # cs) [] = c # cs"
| "render_spec (c # cs) (p # ps) =
     (if c = CHR ''?'' then formatParam p @ render_spec cs ps
      else c # render_spec cs (p # ps))"

section \<open>The telemetry sink\<close>

text \<open>
  The sink (spans, log, metrics) is outside the repository. It is modelled by the list of
  the calls made on it, oldest first. A span handle is a number; \<open>StartSpan\<close> returns a
  fresh one and a context that carries it. \<open>AttrFloat64 n\<close> is \<open>float64(n)\<close> for an
  integer \<open>n\<close>; \<open>ZCostMs us\<close> is \<open>float64(us)/1000.0\<close>; \<open>HistogramObserve\<close> carries
  the duration in nanoseconds whose \<open>Seconds()\<close> is observed.
\<close>

datatype attrval = AttrString string | AttrInt int | AttrFloat64 int

datatype code = CodeOk | CodeError

datatype field = ZString string | ZInt int | ZDuration int | ZCostMs int

datatype event =
    SpanStart nat gocontext string "(string \<times> attrval) list"
  | SpanSetAttributes nat "(string \<times> attrval) list"
  | SpanSetStatus nat code string
  | SpanRecordError nat goerror
  | SpanEnd nat
  | LogInfo "gocontext option" string "(string \<times> field) list"
  | CounterInc string "string list"
  | HistogramObserve string "string list" int

type_synonym telemetry = "event list"

definition StartSpan ::
  "gocontext \<Rightarrow> string \<Rightarrow> (string \<times> attrval) list \<Rightarrow> telemetry \<Rightarrow> gocontext \<times> nat \<times> telemetry" where
  "StartSpan ctx name attrs tel =
     (let span = length tel in (WithSpan ctx span, span, tel @ [SpanStart span ctx name attrs]))"

text \<open>\<open>Duration.Milliseconds\<close> and \<open>Duration.Microseconds\<close>: integer division, truncating.\<close>

definition Milliseconds :: "int \<Rightarrow> int" where
  "Milliseconds d = d sdiv 1000000"

definition Microseconds :: "int \<Rightarrow> int" where
  "Microseconds d = d sdiv 1000"

text \<open>The status calls on a span after the operation: \<open>SetStatus\<close>, and \<open>RecordError\<close> on failure.\<close>

definition setSpanStatus :: "nat \<Rightarrow> goerror option \<Rightarrow> event list" where
  "setSpanStatus span err =
     (case err of
        Some e \<Rightarrow> [SpanSetStatus span CodeError (ErrorMsg e), SpanRecordError span e]
      | None \<Rightarrow> [SpanSetStatus span CodeOk []])"

definition statusOf :: "goerror option \<Rightarrow> string" where
  "statusOf err = (if err = None then ''success'' else ''error'')"

section \<open>The relational tracer\<close>

definition callBackBeforeName :: string where "callBackBeforeName = ''core:before''"
definition callBackAfterName :: string where "callBackAfterName = ''core:after''"
definition startTime :: string where "startTime = ''_start_time''"
definition spanKey :: string where "spanKey = ''_span''"

record GormTracePlugin =
  enableTrace :: bool

datatype verb = Create | Query | Delete | Update | Row | Raw

datatype position = Before string | After string

datatype handler = HandlerBefore | HandlerAfter

datatype registration = Registration verb position string handler

text \<open>
  \<open>Initialize\<close>. The callback registry belongs to the ORM; \<open>Register\<close> is its
  registration call, taken as a parameter: from a registry and a registration it gives
  the error (if any) and the registry afterwards. Each of the twelve results is assigned
  to \<open>_\<close>; the named result \<open>err\<close> is never assigned, so the bare \<open>return\<close> gives nil.
\<close>

definition Initialize ::
  "('r \<Rightarrow> registration \<Rightarrow> goerror option \<times> 'r) \<Rightarrow> 'r \<Rightarrow> goerror option \<times> 'r" where
  "Initialize Register r0 =
     (let r1 = snd (Register r0 (Registration Create (Before ''gorm:before_create'') callBackBeforeName HandlerBefore));
          r2 = snd (Register r1 (Registration Query (Before ''gorm:query'') callBackBeforeName HandlerBefore));
          r3 = snd (Register r2 (Registration Delete (Before ''gorm:before_delete'') callBackBeforeName HandlerBefore));
          r4 = snd (Register r3 (Registration Update (Before ''gorm:setup_reflect_value'') callBackBeforeName HandlerBefore));
          r5 = snd (Register r4 (Registration Row (Before ''gorm:row'') callBackBeforeName HandlerBefore));
          r6 = snd (Register r5 (Registration Raw (Before ''gorm:raw'') callBackBeforeName HandlerBefore));
          r7 = snd (Register r6 (Registration Create (After ''gorm:after_create'') callBackAfterName HandlerAfter));
          r8 = snd (Register r7 (Registration Query (After ''gorm:after_query'') callBackAfterName HandlerAfter));
          r9 = snd (Register r8 (Registration Delete (After ''gorm:after_delete'') callBackAfterName HandlerAfter));
          r10 = snd (Register r9 (Registration Update (After ''gorm:after_update'') callBackAfterName HandlerAfter));
          r11 = snd (Register r10 (Registration Row (After ''gorm:row'') callBackAfterName HandlerAfter));
          r12 = snd (Register r11 (Registration Raw (After ''gorm:raw'') callBackAfterName HandlerAfter))
      in (None, r12))"

text \<open>The twelve registrations in the order \<open>Initialize\<close> makes them.\<close>

definition registrations :: "registration list" where
  "registrations =
     [Registration Create (Before ''gorm:before_create'') callBackBeforeName HandlerBefore,
      Registration Query (Before ''gorm:query'') callBackBeforeName HandlerBefore,
      Registration Delete (Before ''gorm:before_delete'') callBackBeforeName HandlerBefore,
      Registration Update (Before ''gorm:setup_reflect_value'') callBackBeforeName HandlerBefore,
      Registration Row (Before ''gorm:row'') callBackBeforeName HandlerBefore,
      Registration Raw (Before ''gorm:raw'') callBackBeforeName HandlerBefore,
      Registration Create (After ''gorm:after_create'') callBackAfterName HandlerAfter,
      Registration Query (After ''gorm:after_query'') callBackAfterName HandlerAfter,
      Registration Delete (After ''gorm:after_delete'') callBackAfterName HandlerAfter,
      Registration Update (After ''gorm:after_update'') callBackAfterName HandlerAfter,
      Registration Row (After ''gorm:row'') callBackAfterName HandlerAfter,
      Registration Raw (After ''gorm:raw'') callBackAfterName HandlerAfter]"

text \<open>
  Modelled from the spec: the registry of the ORM, which is not part of the repository.
  A registry is the list of the (verb, name) pairs registered so far; registering a name
  that a verb already has fails and leaves the registry as it was ("fail loudly on name
  collision").
\<close>

fun collidingRegister ::
  "(verb \<times> string) list \<Rightarrow> registration \<Rightarrow> goerror option \<times> (verb \<times> string) list" where
  "collidingRegister reg (Registration v at name h) =
     (if (v, name) \<in> set reg then (Some (GoError (''duplicated callback '' @ name)), reg)
      else (None, reg @ [(v, name)]))"

text \<open>
  \<open>before\<close>: \<open>now\<close> is the reading of \<open>time.Now()\<close>. The result is the handle after
  the callback and the sink after it.
\<close>

definition before :: "GormTracePlugin \<Rightarrow> int \<Rightarrow> DB \<Rightarrow> telemetry \<Rightarrow> DB \<times> telemetry" where
  "before op now db tel =
     (let db1 = InstanceSet db startTime (ATime now)
      in if enableTrace op then
           (let ctx = (case Statement db1 of
                         None \<Rightarrow> Background
                       | Some st \<Rightarrow> (case Context st of None \<Rightarrow> Background | Some c \<Rightarrow> c));
                operation = getOperationType db1;
                spanName = ''gorm.'' @ operation;
                (ctx1, span, tel1) =
                   StartSpan ctx spanName
                     [(''db.system'', AttrString ''sql''), (''db.operation'', AttrString operation)] tel;
                db2 = InstanceSet db1 spanKey (ASpan span);
                db3 = (case Statement db2 of
                         None \<Rightarrow> db2
                       | Some st \<Rightarrow> db2\<lparr>Statement := Some (st\<lparr>Context := Some ctx1\<rparr>)\<rparr>)
            in (db3, tel1))
         else (db1, tel))"

text \<open>
  A callback either returns or panics; both carry the handle and the sink as they are at
  that moment.
\<close>

datatype 'a outcome = Returned 'a | Panicked 'a

fun stateOf :: "'a outcome \<Rightarrow> 'a" where
  "stateOf (Returned x) = x"
| "stateOf (Panicked x) = x"

text \<open>The span calls of \<open>after\<close>, made when tracing is on and the store holds a span.\<close>

definition afterSpan ::
  "GormTracePlugin \<Rightarrow> DB \<Rightarrow> string \<Rightarrow> string \<Rightarrow> int \<Rightarrow> event list" where
  "afterSpan op db sql operation duration =
     (if enableTrace op then
        (case InstanceGet db spanKey of
           Some (ASpan span) \<Rightarrow>
             [SpanSetAttributes span
                [(''db.statement'', AttrString sql), (''db.operation'', AttrString operation),
                 (''db.duration_ms'', AttrFloat64 (Milliseconds duration))]]
             @ setSpanStatus span (Error db)
             @ [SpanEnd span]
         | _ \<Rightarrow> [])
      else [])"

text \<open>
  \<open>after\<close>: \<open>now\<close> is the clock read by \<open>time.Since\<close>, \<open>metricsEnabled\<close> the answer
  of \<open>metrics.IsEnabled()\<close>. The log call reads \<open>db.Statement.Context\<close> with no check
  of \<open>db.Statement\<close>: on a nil statement it panics there.
\<close>

definition after ::
  "GormTracePlugin \<Rightarrow> int \<Rightarrow> bool \<Rightarrow> DB \<Rightarrow> telemetry \<Rightarrow> (DB \<times> telemetry) outcome" where
  "after op now metricsEnabled db tel =
     (case InstanceGet db startTime of
        None \<Rightarrow> Returned (db, tel)
      | Some (ATime ts) \<Rightarrow>
          (let duration = now - ts;
               operation = getOperationType db;
               status = statusOf (Error db);
               sql = getFullSQL db;
               tel1 = tel @ afterSpan op db sql operation duration
           in case Statement db of
                None \<Rightarrow> Panicked (db, tel1)
              | Some st \<Rightarrow>
                  (let tel2 = tel1 @
                         [LogInfo (Context st) ''SQL cost time''
                            [(''cost_ms'', ZCostMs (Microseconds duration)), (''sql'', ZString sql),
                             (''operation'', ZString operation), (''status'', ZString status)]];
                       tel3 = (if metricsEnabled then
                                 tel2 @ [CounterInc ''DatabaseQueryTotal'' [operation, status],
                                         HistogramObserve ''DatabaseQueryDuration'' [operation] duration]
                               else tel2)
                   in Returned (db, tel3)))
      | Some _ \<Rightarrow> Returned (db, tel))"

section \<open>The cache tracer\<close>

text \<open>
  A command as the hook sees it: \<open>cmd.Name()\<close> and \<open>cmd.String()\<close>. \<open>next\<close> is the
  wrapped stage: it returns its error and the command(s) as execution left them.
  \<open>clockStart\<close> is the reading of \<open>time.Now()\<close>, \<open>clockEnd\<close> the clock at
  \<open>time.Since\<close>. The deferred \<open>span.End()\<close> runs last.
\<close>

record Cmder =
  Name :: string
  String :: string

record traceRedisHook =
  hookEnableTrace :: bool

record env =
  clockStart :: int
  clockEnd :: int
  metricsIsEnabled :: bool

definition operationName :: "Cmder \<Rightarrow> string" where
  "operationName cmd = (if Name cmd = [] then ''unknown'' else Name cmd)"

definition ProcessHook ::
  "traceRedisHook \<Rightarrow> (gocontext \<Rightarrow> Cmder \<Rightarrow> goerror option \<times> Cmder) \<Rightarrow> env \<Rightarrow>
   gocontext \<Rightarrow> Cmder \<Rightarrow> telemetry \<Rightarrow> goerror option \<times> telemetry" where
  "ProcessHook h next e ctx cmd tel =
     (let (ctx1, span, tel1) =
            (if hookEnableTrace h then
               (let operation = operationName cmd;
                    (c, sp, t) = StartSpan ctx (''redis.'' @ operation)
                       [(''db.system'', AttrString ''redis''), (''db.operation'', AttrString operation)] tel
                in (c, Some sp, t))
             else (ctx, None, tel));
          start = clockStart e;
          (err, cmd1) = next ctx1 cmd;
          duration = clockEnd e - start;
          operation = operationName cmd1;
          status = statusOf err;
          tel2 = (case span of
                    Some sp \<Rightarrow>
                      (if hookEnableTrace h then
                         tel1 @ [SpanSetAttributes sp
                                   [(''db.statement'', AttrString (String cmd1)),
                                    (''db.duration_ms'', AttrFloat64 (Milliseconds duration))]]
                              @ setSpanStatus sp err
                       else tel1)
                  | None \<Rightarrow> tel1);
          tel3 = tel2 @
                 [LogInfo (Some ctx1) ''Redis command success''
                    [(''operation'', ZString operation), (''cmd'', ZString (String cmd1)),
                     (''duration'', ZDuration duration), (''status'', ZString status)]];
          tel4 = (if metricsIsEnabled e then
                    tel3 @ [CounterInc ''RedisOperationTotal'' [operation, status],
                            HistogramObserve ''RedisOperationDuration'' [operation] duration]
                  else tel3);
          tel5 = (case span of Some sp \<Rightarrow> tel4 @ [SpanEnd sp] | None \<Rightarrow> tel4)
      in (err, tel5))"

definition ProcessPipelineHook ::
  "traceRedisHook \<Rightarrow> (gocontext \<Rightarrow> Cmder list \<Rightarrow> goerror option \<times> Cmder list) \<Rightarrow> env \<Rightarrow>
   gocontext \<Rightarrow> Cmder list \<Rightarrow> telemetry \<Rightarrow> goerror option \<times> telemetry" where
  "ProcessPipelineHook h next e ctx cmds tel =
     (let (ctx1, span, tel1) =
            (if hookEnableTrace h then
               (let (c, sp, t) = StartSpan ctx ''redis.pipeline''
                       [(''db.system'', AttrString ''redis''), (''db.operation'', AttrString ''pipeline''),
                        (''db.command_count'', AttrInt (int (length cmds)))] tel
                in (c, Some sp, t))
             else (ctx, None, tel));
          start = clockStart e;
          err = fst (next ctx1 cmds);
          duration = clockEnd e - start;
          status = statusOf err;
          tel2 = (case span of
                    Some sp \<Rightarrow>
                      (if hookEnableTrace h then
                         tel1 @ [SpanSetAttributes sp
                                   [(''db.duration_ms'', AttrFloat64 (Milliseconds duration))]]
                              @ setSpanStatus sp err
                       else tel1)
                  | None \<Rightarrow> tel1);
          tel3 = tel2 @
                 [LogInfo (Some ctx1) ''Redis pipeline success''
                    [(''cmd_count'', ZInt (int (length cmds))),
                     (''duration'', ZDuration duration), (''status'', ZString status)]];
          tel4 = (if metricsIsEnabled e then
                    tel3 @ [CounterInc ''RedisOperationTotal'' [''pipeline'', status],
                            HistogramObserve ''RedisOperationDuration'' [''pipeline''] duration]
                  else tel3);
          tel5 = (case span of Some sp \<Rightarrow> tel4 @ [SpanEnd sp] | None \<Rightarrow> tel4)
      in (err, tel5))"

text \<open>Reading the sink: the spans started, the spans ended, the log records, the metric calls.\<close>

fun spanStarts :: "event list \<Rightarrow> nat list" where
  "spanStarts [] = []"
| "spanStarts (SpanStart span ctx name attrs # evs) = span # spanStarts evs"
| "spanStarts (ev # evs) = spanStarts evs"

fun spanEnds :: "event list \<Rightarrow> nat list" where
  "spanEnds [] = []"
| "spanEnds (SpanEnd span # evs) = span # spanEnds evs"
| "spanEnds (ev # evs) = spanEnds evs"

fun isSpanEvent :: "event \<Rightarrow> bool" where
  "isSpanEvent (LogInfo ctx msg fs) = False"
| "isSpanEvent (CounterInc name labels) = False"
| "isSpanEvent (HistogramObserve name labels d) = False"
| "isSpanEvent ev = True"

fun isLog :: "event \<Rightarrow> bool" where
  "isLog (LogInfo ctx msg fs) = True"
| "isLog ev = False"

fun isMetric :: "event \<Rightarrow> bool" where
  "isMetric (CounterInc name labels) = True"
| "isMetric (HistogramObserve name labels d) = True"
| "isMetric ev = False"

text \<open>The calls a callback or hook added to a sink that held \<open>tel\<close> before.\<close>

definition emitted :: "telemetry \<Rightarrow> telemetry \<Rightarrow> event list" where
  "emitted tel tel1 = drop (length tel) tel1"

text \<open>The message and the fields of each log record, and the attributes each span starts with.\<close>

fun logRecords :: "event list \<Rightarrow> (string \<times> (string \<times> field) list) list" where
  "logRecords [] = []"
| "logRecords (LogInfo ctx msg fs # evs) = (msg, fs) # logRecords evs"
| "logRecords (ev # evs) = logRecords evs"

fun spanStartAttributes :: "event list \<Rightarrow> (string \<times> attrval) list list" where
  "spanStartAttributes [] = []"
| "spanStartAttributes (SpanStart span ctx name attrs # evs) = attrs # spanStartAttributes evs"
| "spanStartAttributes (ev # evs) = spanStartAttributes evs"

text \<open>The status calls made on spans: \<open>SetStatus\<close> and \<open>RecordError\<close>.\<close>

fun isStatusCall :: "event \<Rightarrow> bool" where
  "isStatusCall (SpanSetStatus span c msg) = True"
| "isStatusCall (SpanRecordError span err) = True"
| "isStatusCall ev = False"

text \<open>Two and four decimal digits, as the layout \<open>YYYY-MM-DD HH:MM:SS\<close> has them.\<close>

definition digitChar :: "nat \<Rightarrow> char" where
  "digitChar d = ''0123456789'' ! d"

definition twoDigits :: "nat \<Rightarrow> string" where
  "twoDigits n = [digitChar (n div 10), digitChar (n mod 10)]"

definition fourDigits :: "nat \<Rightarrow> string" where
  "fourDigits n = [digitChar (n div 1000), digitChar (n div 100 mod 10),
                   digitChar (n div 10 mod 10), digitChar (n mod 10)]"

section \<open>Attaching the relational tracer\<close>

text \<open>
  C1, as the code has it: whatever the registry answers to each registration,
  \<open>Initialize\<close> returns no error, and it makes all twelve registrations in order, each
  on the registry the previous one left.
\<close>

theorem C1_Initialize_reports_no_error:
  "fst (Initialize Register r) = None \<and>
   snd (Initialize Register r) = foldl (\<lambda>reg g. snd (Register reg g)) r registrations"
  unfolding Initialize_def registrations_def Let_def by simp

text \<open>
  C1 as written fails: on a registry that already holds a callback named
  \<open>core:before\<close> for the create verb, the first registration fails, and
  \<open>Initialize\<close> still returns no error.
\<close>

theorem C1_counterexample:
  "fst (collidingRegister [(Create, ''core:before'')]
          (Registration Create (Before ''gorm:before_create'') callBackBeforeName HandlerBefore)) \<noteq> None \<and>
   fst (Initialize collidingRegister [(Create, ''core:before'')]) = None"
  unfolding Initialize_def Let_def by (simp add: callBackBeforeName_def)

section \<open>The classifier\<close>







section \<open>The sink after a hook or callback\<close>

lemma emitted_append [simp]: "emitted tel (tel @ evs) = evs"
  by (simp add: emitted_def)

lemma emitted_self [simp]: "emitted tel tel = []"
  by (simp add: emitted_def)

lemma ProcessHook_sink:
  "snd (ProcessHook h nextC e ctx cmd tel) =
     (let ctx1 = (if hookEnableTrace h then WithSpan ctx (length tel) else ctx);
          err = fst (nextC ctx1 cmd);
          cmd1 = snd (nextC ctx1 cmd);
          d = clockEnd e - clockStart e
      in tel @
         (if hookEnableTrace h then
            [SpanStart (length tel) ctx (''redis.'' @ operationName cmd)
               [(''db.system'', AttrString ''redis''), (''db.operation'', AttrString (operationName cmd))],
             SpanSetAttributes (length tel)
               [(''db.statement'', AttrString (String cmd1)),
                (''db.duration_ms'', AttrFloat64 (Milliseconds d))]]
            @ setSpanStatus (length tel) err
          else []) @
         [LogInfo (Some ctx1) ''Redis command success''
            [(''operation'', ZString (operationName cmd1)), (''cmd'', ZString (String cmd1)),
             (''duration'', ZDuration d), (''status'', ZString (statusOf err))]] @
         (if metricsIsEnabled e then
            [CounterInc ''RedisOperationTotal'' [operationName cmd1, statusOf err],
             HistogramObserve ''RedisOperationDuration'' [operationName cmd1] d]
          else []) @
         (if hookEnableTrace h then [SpanEnd (length tel)] else []))"
  by (simp add: ProcessHook_def StartSpan_def Let_def split_def)

lemma ProcessPipelineHook_sink:
  "snd (ProcessPipelineHook h nextC e ctx cmds tel) =
     (let ctx1 = (if hookEnableTrace h then WithSpan ctx (length tel) else ctx);
          err = fst (nextC ctx1 cmds);
          d = clockEnd e - clockStart e
      in tel @
         (if hookEnableTrace h then
            [SpanStart (length tel) ctx ''redis.pipeline''
               [(''db.system'', AttrString ''redis''), (''db.operation'', AttrString ''pipeline''),
                (''db.command_count'', AttrInt (int (length cmds)))],
             SpanSetAttributes (length tel)
               [(''db.duration_ms'', AttrFloat64 (Milliseconds d))]]
            @ setSpanStatus (length tel) err
          else []) @
         [LogInfo (Some ctx1) ''Redis pipeline success''
            [(''cmd_count'', ZInt (int (length cmds))),
             (''duration'', ZDuration d), (''status'', ZString (statusOf err))]] @
         (if metricsIsEnabled e then
            [CounterInc ''RedisOperationTotal'' [''pipeline'', statusOf err],
             HistogramObserve ''RedisOperationDuration'' [''pipeline''] d]
          else []) @
         (if hookEnableTrace h then [SpanEnd (length tel)] else []))"
  by (simp add: ProcessPipelineHook_def StartSpan_def Let_def split_def)

lemma logRecords_append [simp]: "logRecords (xs @ ys) = logRecords xs @ logRecords ys"
  by (induction xs rule: logRecords.induct) simp_all

lemma spanStarts_append [simp]: "spanStarts (xs @ ys) = spanStarts xs @ spanStarts ys"
  by (induction xs rule: spanStarts.induct) simp_all

lemma spanEnds_append [simp]: "spanEnds (xs @ ys) = spanEnds xs @ spanEnds ys"
  by (induction xs rule: spanEnds.induct) simp_all

lemma spanStartAttributes_append [simp]:
  "spanStartAttributes (xs @ ys) = spanStartAttributes xs @ spanStartAttributes ys"
  by (induction xs rule: spanStartAttributes.induct) simp_all

lemma setSpanStatus_reads [simp]:
  "logRecords (setSpanStatus span err) = []"
  "spanStarts (setSpanStatus span err) = []"
  "spanEnds (setSpanStatus span err) = []"
  "spanStartAttributes (setSpanStatus span err) = []"
  "filter isMetric (setSpanStatus span err) = []"
  "filter isStatusCall (setSpanStatus span err) = setSpanStatus span err"
  by (simp_all add: setSpanStatus_def split: option.splits)

lemma keys_distinct: "startTime \<noteq> spanKey"
  by (simp add: startTime_def spanKey_def)

lemma InstanceGet_InstanceSet:
  "InstanceGet (InstanceSet db k v) k' = (if k' = k then Some v else InstanceGet db k')"
  by (simp add: InstanceGet_def InstanceSet_def update_conv')

lemma InstanceGet_Statement_update [simp]:
  "InstanceGet (db\<lparr>Statement := s\<rparr>) k = InstanceGet db k"
  by (simp add: InstanceGet_def)

lemma before_sink:
  "snd (before op now db tel) =
     tel @ (if enableTrace op then
              [SpanStart (length tel)
                 (case Statement db of None \<Rightarrow> Background
                  | Some st \<Rightarrow> (case Context st of None \<Rightarrow> Background | Some c \<Rightarrow> c))
                 (''gorm.'' @ getOperationType db)
                 [(''db.system'', AttrString ''sql''),
                  (''db.operation'', AttrString (getOperationType db))]]
            else [])"
  by (simp add: before_def StartSpan_def Let_def split_def InstanceSet_def getOperationType_def)

lemma before_startTime:
  "InstanceGet (fst (before op now db tel)) startTime = Some (ATime now)"
  using keys_distinct
  by (simp add: before_def StartSpan_def Let_def split_def InstanceGet_InstanceSet
           split: option.splits)

lemma before_spanKey:
  "enableTrace op \<Longrightarrow> InstanceGet (fst (before op now db tel)) spanKey = Some (ASpan (length tel))"
  by (simp add: before_def StartSpan_def Let_def split_def InstanceGet_InstanceSet
           split: option.splits)

lemma after_sink:
  assumes "InstanceGet db startTime = Some (ATime ts)"
  shows "\<exists>rest. snd (stateOf (after op now m db tel)) =
            tel @ afterSpan op db (getFullSQL db) (getOperationType db) (now - ts) @ rest \<and>
          spanStarts rest = [] \<and> spanEnds rest = [] \<and> filter isStatusCall rest = []"
  using assms by (cases "Statement db"; cases m) (simp_all add: after_def Let_def)

lemma afterSpan_traced:
  "enableTrace op \<Longrightarrow> InstanceGet db spanKey = Some (ASpan span) \<Longrightarrow>
   afterSpan op db sql operation d =
     [SpanSetAttributes span
        [(''db.statement'', AttrString sql), (''db.operation'', AttrString operation),
         (''db.duration_ms'', AttrFloat64 (Milliseconds d))]]
     @ setSpanStatus span (Error db) @ [SpanEnd span]"
  by (simp add: afterSpan_def)

lemma afterSpan_untraced: "\<not> enableTrace op \<Longrightarrow> afterSpan op db sql operation d = []"
  by (simp add: afterSpan_def)

section \<open>The relational after callback\<close>

text \<open>
  C8: when the instance store holds no start time, \<open>after\<close> returns at once: the
  handle and the sink are as they were, so no span call, no log record and no metric is
  made.
\<close>

theorem C8_after_without_start_time:
  "InstanceGet db startTime = None \<Longrightarrow> after op now metricsEnabled db tel = Returned (db, tel)"
  by (simp add: after_def)

text \<open>
  C8 at a handle whose store holds a span but no start time, with tracing and metrics on.
\<close>

theorem C8_after_without_start_time_witness:
  "InstanceGet \<lparr>Statement = Some \<lparr>SQL = ''SELECT 1'', Vars = [], Model = None, Table = [],
        Context = None\<rparr>, Error = None, Settings = [(''_span'', ASpan 0)]\<rparr> startTime = None \<and>
   after \<lparr>enableTrace = True\<rparr> 7 True
     \<lparr>Statement = Some \<lparr>SQL = ''SELECT 1'', Vars = [], Model = None, Table = [],
        Context = None\<rparr>, Error = None, Settings = [(''_span'', ASpan 0)]\<rparr> [SpanStart 0 Background ''gorm.query'' []]
   = Returned (\<lparr>Statement = Some \<lparr>SQL = ''SELECT 1'', Vars = [], Model = None, Table = [],
        Context = None\<rparr>, Error = None, Settings = [(''_span'', ASpan 0)]\<rparr>, [SpanStart 0 Background ''gorm.query'' []])"
proof -
  have h: "InstanceGet \<lparr>Statement = Some \<lparr>SQL = ''SELECT 1'', Vars = [], Model = None, Table = [],
        Context = None\<rparr>, Error = None, Settings = [(''_span'', ASpan 0)]\<rparr> startTime = None"
    by (simp add: InstanceGet_def startTime_def)
  show ?thesis using h C8_after_without_start_time [OF h] by simp
qed

lemma after_nil_Statement:
  "Statement db = None \<Longrightarrow> InstanceGet db startTime = Some (ATime ts) \<Longrightarrow>
   \<exists>s. after op now metricsEnabled db tel = Panicked s"
  by (simp add: after_def Let_def)


section \<open>The cache tracer's wrappers\<close>

text \<open>
  C7: the single-command wrapper and the pipeline wrapper return the error that \<open>next\<close>
  returned, on the context the wrapper passed to it (the caller's, or the one carrying the
  new span when tracing is on).
\<close>

theorem C7_hooks_return_error_of_next:
  "fst (ProcessHook h nextC e ctx cmd tel) =
     fst (nextC (if hookEnableTrace h then WithSpan ctx (length tel) else ctx) cmd) \<and>
   fst (ProcessPipelineHook h nextP e ctx cmds tel) =
     fst (nextP (if hookEnableTrace h then WithSpan ctx (length tel) else ctx) cmds)"
  by (simp add: ProcessHook_def ProcessPipelineHook_def StartSpan_def Let_def split_def)

text \<open>
  C7 at a failing command with tracing on, and at a pipeline that succeeds with tracing off.
\<close>

theorem C7_hooks_return_error_of_next_witness:
  "fst (ProcessHook \<lparr>hookEnableTrace = True\<rparr> (\<lambda>c cmd. (Some (GoError ''i/o timeout''), cmd))
          \<lparr>clockStart = 0, clockEnd = 5, metricsIsEnabled = True\<rparr> Background
          \<lparr>Name = ''get'', String = ''get k''\<rparr> []) = Some (GoError ''i/o timeout'') \<and>
   fst (ProcessPipelineHook \<lparr>hookEnableTrace = False\<rparr> (\<lambda>c cs. (None, cs))
          \<lparr>clockStart = 0, clockEnd = 5, metricsIsEnabled = False\<rparr> Background
          [\<lparr>Name = ''get'', String = ''get k''\<rparr>] []) = None"
  using C7_hooks_return_error_of_next
          [where h = "\<lparr>hookEnableTrace = True\<rparr>"
             and nextC = "\<lambda>c cmd. (Some (GoError ''i/o timeout''), cmd)"
             and e = "\<lparr>clockStart = 0, clockEnd = 5, metricsIsEnabled = True\<rparr>"
             and ctx = Background and cmd = "\<lparr>Name = ''get'', String = ''get k''\<rparr>"
             and tel = "[]" and nextP = "\<lambda>c cs. (None, cs)" and cmds = "[]"]
        C7_hooks_return_error_of_next
          [where h = "\<lparr>hookEnableTrace = False\<rparr>"
             and nextC = "\<lambda>c cmd. (None, cmd)"
             and e = "\<lparr>clockStart = 0, clockEnd = 5, metricsIsEnabled = False\<rparr>"
             and ctx = Background and cmd = "\<lparr>Name = ''get'', String = ''get k''\<rparr>"
             and tel = "[]" and nextP = "\<lambda>c cs. (None, cs)"
             and cmds = "[\<lparr>Name = ''get'', String = ''get k''\<rparr>]"]
  by simp

text \<open>
  C10: each wrapper writes exactly one log record; its message is the fixed text
  \<open>Redis command success\<close> (\<open>Redis pipeline success\<close>) whatever \<open>next\<close> returned,
  and of its fields only \<open>status\<close> is computed from the error.
\<close>

theorem C10_log_message_fixed:
  "logRecords (emitted tel (snd (ProcessHook h nextC e ctx cmd tel))) =
     (let ctx1 = (if hookEnableTrace h then WithSpan ctx (length tel) else ctx);
          err = fst (nextC ctx1 cmd);
          cmd1 = snd (nextC ctx1 cmd)
      in [(''Redis command success'',
           [(''operation'', ZString (operationName cmd1)), (''cmd'', ZString (String cmd1)),
            (''duration'', ZDuration (clockEnd e - clockStart e)),
            (''status'', ZString (if err = None then ''success'' else ''error''))])]) \<and>
   logRecords (emitted tel (snd (ProcessPipelineHook h nextP e ctx cmds tel))) =
     (let ctx1 = (if hookEnableTrace h then WithSpan ctx (length tel) else ctx);
          err = fst (nextP ctx1 cmds)
      in [(''Redis pipeline success'',
           [(''cmd_count'', ZInt (int (length cmds))),
            (''duration'', ZDuration (clockEnd e - clockStart e)),
            (''status'', ZString (if err = None then ''success'' else ''error''))])])"
  by (simp add: ProcessHook_sink ProcessPipelineHook_sink Let_def statusOf_def)

text \<open>
  C10 at a command that fails: the message still says success, the status says error.
\<close>

theorem C10_log_message_fixed_witness:
  "logRecords (emitted [] (snd (ProcessHook \<lparr>hookEnableTrace = False\<rparr>
       (\<lambda>c cmd. (Some (GoError ''i/o timeout''), cmd))
       \<lparr>clockStart = 0, clockEnd = 5, metricsIsEnabled = True\<rparr> Background
       \<lparr>Name = ''get'', String = ''get k''\<rparr> []))) =
     [(''Redis command success'',
       [(''operation'', ZString ''get''), (''cmd'', ZString ''get k''),
        (''duration'', ZDuration 5), (''status'', ZString ''error'')])]"
  using C10_log_message_fixed
          [where tel = "[]" and h = "\<lparr>hookEnableTrace = False\<rparr>"
             and nextC = "\<lambda>c cmd. (Some (GoError ''i/o timeout''), cmd)"
             and e = "\<lparr>clockStart = 0, clockEnd = 5, metricsIsEnabled = True\<rparr>"
             and ctx = Background and cmd = "\<lparr>Name = ''get'', String = ''get k''\<rparr>"]
  by (simp add: operationName_def)

text \<open>
  C9, as the code has it: the metric calls of the pipeline wrapper carry the operation
  label \<open>pipeline\<close>; with tracing on the span starts with \<open>db.operation = pipeline\<close>
  and \<open>db.command_count\<close> equal to the number of commands; the log record has the
  message \<open>Redis pipeline success\<close> and the fields \<open>cmd_count\<close>, \<open>duration\<close> and
  \<open>status\<close>, with \<open>cmd_count\<close> the number of commands.
\<close>

theorem C9_pipeline_labels:
  "(let new = emitted tel (snd (ProcessPipelineHook h nextP e ctx cmds tel));
        ctx1 = (if hookEnableTrace h then WithSpan ctx (length tel) else ctx);
        status = (if fst (nextP ctx1 cmds) = None then ''success'' else ''error'');
        d = clockEnd e - clockStart e
    in filter isMetric new =
         (if metricsIsEnabled e then
            [CounterInc ''RedisOperationTotal'' [''pipeline'', status],
             HistogramObserve ''RedisOperationDuration'' [''pipeline''] d]
          else []) \<and>
       spanStartAttributes new =
         (if hookEnableTrace h then
            [[(''db.system'', AttrString ''redis''), (''db.operation'', AttrString ''pipeline''),
              (''db.command_count'', AttrInt (int (length cmds)))]]
          else []) \<and>
       logRecords new =
         [(''Redis pipeline success'',
           [(''cmd_count'', ZInt (int (length cmds))), (''duration'', ZDuration d),
            (''status'', ZString status)])])"
  by (simp add: ProcessPipelineHook_sink Let_def statusOf_def)

text \<open>
  C9 at a batch of a \<open>get\<close> and a \<open>set\<close>.
\<close>

theorem C9_pipeline_labels_witness:
  "filter isMetric (emitted [] (snd (ProcessPipelineHook \<lparr>hookEnableTrace = True\<rparr>
       (\<lambda>c cs. (None, cs)) \<lparr>clockStart = 0, clockEnd = 5, metricsIsEnabled = True\<rparr> Background
       [\<lparr>Name = ''get'', String = ''get k''\<rparr>, \<lparr>Name = ''set'', String = ''set k v''\<rparr>] []))) =
     [CounterInc ''RedisOperationTotal'' [''pipeline'', ''success''],
      HistogramObserve ''RedisOperationDuration'' [''pipeline''] 5] \<and>
   spanStartAttributes (emitted [] (snd (ProcessPipelineHook \<lparr>hookEnableTrace = True\<rparr>
       (\<lambda>c cs. (None, cs)) \<lparr>clockStart = 0, clockEnd = 5, metricsIsEnabled = True\<rparr> Background
       [\<lparr>Name = ''get'', String = ''get k''\<rparr>, \<lparr>Name = ''set'', String = ''set k v''\<rparr>] []))) =
     [[(''db.system'', AttrString ''redis''), (''db.operation'', AttrString ''pipeline''),
       (''db.command_count'', AttrInt 2)]]"
  using C9_pipeline_labels
          [where tel = "[]" and h = "\<lparr>hookEnableTrace = True\<rparr>"
             and nextP = "\<lambda>c cs. (None, cs)"
             and e = "\<lparr>clockStart = 0, clockEnd = 5, metricsIsEnabled = True\<rparr>"
             and ctx = Background
             and cmds = "[\<lparr>Name = ''get'', String = ''get k''\<rparr>, \<lparr>Name = ''set'', String = ''set k v''\<rparr>]"]
  by (simp add: Let_def)

text \<open>
  C9 as written fails: the log record of the pipeline wrapper has no \<open>operation\<close>
  field at all.
\<close>

theorem C9_counterexample:
  "map (\<lambda>r. map_of (snd r) ''operation'')
     (logRecords (snd (ProcessPipelineHook \<lparr>hookEnableTrace = True\<rparr> (\<lambda>c cs. (None, cs))
        \<lparr>clockStart = 0, clockEnd = 5, metricsIsEnabled = True\<rparr> Background
        [\<lparr>Name = ''get'', String = ''get k''\<rparr>, \<lparr>Name = ''set'', String = ''set k v''\<rparr>] [])))
   = [None]"
  by (simp add: ProcessPipelineHook_sink Let_def statusOf_def)

section \<open>Spans are ended once\<close>

text \<open>
  C5: for the relational tracer, when the store still holds at \<open>after\<close> what
  \<open>before\<close> put under the two keys, \<open>before\<close> starts one span if tracing is on and
  none otherwise, and ends none; \<open>after\<close> starts none and ends exactly the span that
  \<open>before\<close> started, after setting status Error and recording the error when the
  operation failed, status Ok otherwise. For the cache tracer each wrapper starts one
  span if tracing is on and none otherwise, ends exactly the spans it started, and sets
  the status from the error of \<open>next\<close> in the same way.
\<close>

theorem C5_span_started_is_ended_once:
  assumes "InstanceGet db2 startTime = InstanceGet (fst (before op t0 db tel)) startTime"
    and "InstanceGet db2 spanKey = InstanceGet (fst (before op t0 db tel)) spanKey"
  shows
  "(let tel1 = snd (before op t0 db tel);
        started = emitted tel tel1;
        finished = emitted tel1 (snd (stateOf (after op t1 m db2 tel1)))
    in spanStarts started = (if enableTrace op then [length tel] else []) \<and>
       spanEnds started = [] \<and>
       spanStarts finished = [] \<and>
       spanEnds finished = spanStarts started \<and>
       filter isStatusCall finished =
         (if enableTrace op then
            (case Error db2 of
               Some err \<Rightarrow> [SpanSetStatus (length tel) CodeError (ErrorMsg err),
                            SpanRecordError (length tel) err]
             | None \<Rightarrow> [SpanSetStatus (length tel) CodeOk []])
          else [])) \<and>
   (let new = emitted tel (snd (ProcessHook h nextC e ctx cmd tel));
        err = fst (ProcessHook h nextC e ctx cmd tel)
    in spanStarts new = (if hookEnableTrace h then [length tel] else []) \<and>
       spanEnds new = spanStarts new \<and>
       filter isStatusCall new =
         (if hookEnableTrace h then
            (case err of
               Some er \<Rightarrow> [SpanSetStatus (length tel) CodeError (ErrorMsg er),
                           SpanRecordError (length tel) er]
             | None \<Rightarrow> [SpanSetStatus (length tel) CodeOk []])
          else [])) \<and>
   (let new = emitted tel (snd (ProcessPipelineHook h nextP e ctx cmds tel));
        err = fst (ProcessPipelineHook h nextP e ctx cmds tel)
    in spanStarts new = (if hookEnableTrace h then [length tel] else []) \<and>
       spanEnds new = spanStarts new \<and>
       filter isStatusCall new =
         (if hookEnableTrace h then
            (case err of
               Some er \<Rightarrow> [SpanSetStatus (length tel) CodeError (ErrorMsg er),
                           SpanRecordError (length tel) er]
             | None \<Rightarrow> [SpanSetStatus (length tel) CodeOk []])
          else []))"
proof -
  have st: "InstanceGet db2 startTime = Some (ATime t0)"
    using assms(1) by (simp add: before_startTime)
  have gorm: "(let tel1 = snd (before op t0 db tel);
        started = emitted tel tel1;
        finished = emitted tel1 (snd (stateOf (after op t1 m db2 tel1)))
    in spanStarts started = (if enableTrace op then [length tel] else []) \<and>
       spanEnds started = [] \<and>
       spanStarts finished = [] \<and>
       spanEnds finished = spanStarts started \<and>
       filter isStatusCall finished =
         (if enableTrace op then
            (case Error db2 of
               Some err \<Rightarrow> [SpanSetStatus (length tel) CodeError (ErrorMsg err),
                            SpanRecordError (length tel) err]
             | None \<Rightarrow> [SpanSetStatus (length tel) CodeOk []])
          else []))"
  proof -
    obtain rest where rest:
      "snd (stateOf (after op t1 m db2 (snd (before op t0 db tel)))) =
         snd (before op t0 db tel) @
         afterSpan op db2 (getFullSQL db2) (getOperationType db2) (t1 - t0) @ rest"
      "spanStarts rest = []" "spanEnds rest = []" "filter isStatusCall rest = []"
      using after_sink [OF st] by blast
    show ?thesis
    proof (cases "enableTrace op")
      case True
      have sp: "InstanceGet db2 spanKey = Some (ASpan (length tel))"
        using assms(2) True by (simp add: before_spanKey)
      show ?thesis
        using True rest(2-4)
        by (simp add: Let_def rest(1) afterSpan_traced [OF True sp])
           (simp add: before_sink setSpanStatus_def split: option.splits)
    next
      case False
      then show ?thesis
        using rest(2-4)
        by (simp add: Let_def rest(1) afterSpan_untraced) (simp add: before_sink)
    qed
  qed
  have hook: "(let new = emitted tel (snd (ProcessHook h nextC e ctx cmd tel));
        err = fst (ProcessHook h nextC e ctx cmd tel)
    in spanStarts new = (if hookEnableTrace h then [length tel] else []) \<and>
       spanEnds new = spanStarts new \<and>
       filter isStatusCall new =
         (if hookEnableTrace h then
            (case err of
               Some er \<Rightarrow> [SpanSetStatus (length tel) CodeError (ErrorMsg er),
                           SpanRecordError (length tel) er]
             | None \<Rightarrow> [SpanSetStatus (length tel) CodeOk []])
          else []))"
    by (simp add: ProcessHook_sink Let_def, simp add: ProcessHook_def StartSpan_def Let_def split_def setSpanStatus_def split: option.splits)
  have pipe: "(let new = emitted tel (snd (ProcessPipelineHook h nextP e ctx cmds tel));
        err = fst (ProcessPipelineHook h nextP e ctx cmds tel)
    in spanStarts new = (if hookEnableTrace h then [length tel] else []) \<and>
       spanEnds new = spanStarts new \<and>
       filter isStatusCall new =
         (if hookEnableTrace h then
            (case err of
               Some er \<Rightarrow> [SpanSetStatus (length tel) CodeError (ErrorMsg er),
                           SpanRecordError (length tel) er]
             | None \<Rightarrow> [SpanSetStatus (length tel) CodeOk []])
          else []))"
    by (simp add: ProcessPipelineHook_sink Let_def, simp add: ProcessPipelineHook_def StartSpan_def Let_def split_def setSpanStatus_def split: option.splits)
  from gorm hook pipe show ?thesis by blast
qed

text \<open>
  C5 at a query that fails with tracing on: the span that \<open>before\<close> started is ended
  once by \<open>after\<close>, with status Error and the error recorded.
\<close>

theorem C5_span_started_is_ended_once_witness:
  "InstanceGet \<lparr>Statement = Some \<lparr>SQL = ''SELECT * FROM users'', Vars = [], Model = None,
        Table = ''users'', Context = Some (WithSpan Background 0)\<rparr>,
      Error = Some (GoError ''boom''),
      Settings = [(''_start_time'', ATime 10), (''_span'', ASpan 0)]\<rparr> startTime =
   InstanceGet (fst (before \<lparr>enableTrace = True\<rparr> 10
      \<lparr>Statement = Some \<lparr>SQL = [], Vars = [], Model = None, Table = ''users'', Context = None\<rparr>,
       Error = None, Settings = []\<rparr> [])) startTime \<and>
   InstanceGet \<lparr>Statement = Some \<lparr>SQL = ''SELECT * FROM users'', Vars = [], Model = None,
        Table = ''users'', Context = Some (WithSpan Background 0)\<rparr>,
      Error = Some (GoError ''boom''),
      Settings = [(''_start_time'', ATime 10), (''_span'', ASpan 0)]\<rparr> spanKey =
   InstanceGet (fst (before \<lparr>enableTrace = True\<rparr> 10
      \<lparr>Statement = Some \<lparr>SQL = [], Vars = [], Model = None, Table = ''users'', Context = None\<rparr>,
       Error = None, Settings = []\<rparr> [])) spanKey \<and>
   spanEnds (emitted [SpanStart 0 Background ''gorm.query''
                 [(''db.system'', AttrString ''sql''), (''db.operation'', AttrString ''query'')]]
      (snd (stateOf (after \<lparr>enableTrace = True\<rparr> 25 True
         \<lparr>Statement = Some \<lparr>SQL = ''SELECT * FROM users'', Vars = [], Model = None,
              Table = ''users'', Context = Some (WithSpan Background 0)\<rparr>,
           Error = Some (GoError ''boom''),
           Settings = [(''_start_time'', ATime 10), (''_span'', ASpan 0)]\<rparr>
         [SpanStart 0 Background ''gorm.query''
            [(''db.system'', AttrString ''sql''), (''db.operation'', AttrString ''query'')]])))) = [0] \<and>
   filter isStatusCall (emitted [SpanStart 0 Background ''gorm.query''
                 [(''db.system'', AttrString ''sql''), (''db.operation'', AttrString ''query'')]]
      (snd (stateOf (after \<lparr>enableTrace = True\<rparr> 25 True
         \<lparr>Statement = Some \<lparr>SQL = ''SELECT * FROM users'', Vars = [], Model = None,
              Table = ''users'', Context = Some (WithSpan Background 0)\<rparr>,
           Error = Some (GoError ''boom''),
           Settings = [(''_start_time'', ATime 10), (''_span'', ASpan 0)]\<rparr>
         [SpanStart 0 Background ''gorm.query''
            [(''db.system'', AttrString ''sql''), (''db.operation'', AttrString ''query'')]]))))
     = [SpanSetStatus 0 CodeError ''boom'', SpanRecordError 0 (GoError ''boom'')]"
proof -
  have bf: "before \<lparr>enableTrace = True\<rparr> 10
      \<lparr>Statement = Some \<lparr>SQL = [], Vars = [], Model = None, Table = ''users'', Context = None\<rparr>,
       Error = None, Settings = []\<rparr> [] =
      (\<lparr>Statement = Some \<lparr>SQL = [], Vars = [], Model = None, Table = ''users'',
           Context = Some (WithSpan Background 0)\<rparr>,
         Error = None, Settings = [(''_start_time'', ATime 10), (''_span'', ASpan 0)]\<rparr>,
       [SpanStart 0 Background ''gorm.query''
          [(''db.system'', AttrString ''sql''), (''db.operation'', AttrString ''query'')]])"
    by (simp add: before_def InstanceSet_def StartSpan_def getOperationType_def sqlPrefixType_def
          startTime_def spanKey_def Let_def)
  have h1: "InstanceGet \<lparr>Statement = Some \<lparr>SQL = ''SELECT * FROM users'', Vars = [], Model = None,
        Table = ''users'', Context = Some (WithSpan Background 0)\<rparr>,
      Error = Some (GoError ''boom''),
      Settings = [(''_start_time'', ATime 10), (''_span'', ASpan 0)]\<rparr> startTime =
   InstanceGet (fst (before \<lparr>enableTrace = True\<rparr> 10
      \<lparr>Statement = Some \<lparr>SQL = [], Vars = [], Model = None, Table = ''users'', Context = None\<rparr>,
       Error = None, Settings = []\<rparr> [])) startTime"
    by (simp add: bf InstanceGet_def)
  have h2: "InstanceGet \<lparr>Statement = Some \<lparr>SQL = ''SELECT * FROM users'', Vars = [], Model = None,
        Table = ''users'', Context = Some (WithSpan Background 0)\<rparr>,
      Error = Some (GoError ''boom''),
      Settings = [(''_start_time'', ATime 10), (''_span'', ASpan 0)]\<rparr> spanKey =
   InstanceGet (fst (before \<lparr>enableTrace = True\<rparr> 10
      \<lparr>Statement = Some \<lparr>SQL = [], Vars = [], Model = None, Table = ''users'', Context = None\<rparr>,
       Error = None, Settings = []\<rparr> [])) spanKey"
    by (simp add: bf InstanceGet_def)
  show ?thesis
    using h1 h2 C5_span_started_is_ended_once [OF h1 h2, of 25 True]
    by (simp add: bf Let_def)
qed

section \<open>Formatting a bound value\<close>

lemma ReplaceAll_single:
  "ReplaceAll s [a] new = concat (map (\<lambda>c. if c = a then new else [c]) s)"
proof (induction s)
  case Nil
  show ?case by (simp add: ReplaceAll.simps [of "[]"])
next
  case (Cons x xs)
  show ?case
  proof (cases "x = a")
    case True
    then show ?thesis using Cons by (simp add: ReplaceAll.simps [of "a # xs"])
  next
    case False
    then show ?thesis using Cons by (simp add: ReplaceAll.simps [of "x # xs"])
  qed
qed

lemma digitChar_0: "digitChar 0 = CHR ''0''"
  by (simp add: digitChar_def)

lemma showNat_1: "n < 10 \<Longrightarrow> showNat n = [digitChar n]"
  by (simp add: showNat.simps [of n] digitChar_def)

lemma showNat_step: "10 \<le> n \<Longrightarrow> showNat n = showNat (n div 10) @ [digitChar (n mod 10)]"
  by (subst showNat.simps) (simp add: digitChar_def)

lemma showNat_2:
  assumes "10 \<le> n" "n < 100"
  shows "showNat n = [digitChar (n div 10), digitChar (n mod 10)]"
proof -
  have "n div 10 < 10" using assms by arith
  then have "showNat (n div 10) = [digitChar (n div 10)]" by (rule showNat_1)
  with showNat_step [OF assms(1)] show ?thesis by simp
qed

lemma showNat_3:
  assumes "100 \<le> n" "n < 1000"
  shows "showNat n = [digitChar (n div 100), digitChar (n div 10 mod 10), digitChar (n mod 10)]"
proof -
  have "10 \<le> n div 10" "n div 10 < 100" using assms by arith+
  then have "showNat (n div 10) = [digitChar (n div 10 div 10), digitChar (n div 10 mod 10)]"
    by (rule showNat_2)
  moreover have "n div 10 div 10 = n div 100" by arith
  moreover have "10 \<le> n" using assms by arith
  ultimately show ?thesis using showNat_step [of n] by simp
qed

lemma showNat_4:
  assumes "1000 \<le> n" "n < 10000"
  shows "showNat n = [digitChar (n div 1000), digitChar (n div 100 mod 10),
                      digitChar (n div 10 mod 10), digitChar (n mod 10)]"
proof -
  have "100 \<le> n div 10" "n div 10 < 1000" using assms by arith+
  then have "showNat (n div 10) =
      [digitChar (n div 10 div 100), digitChar (n div 10 div 10 mod 10), digitChar (n div 10 mod 10)]"
    by (rule showNat_3)
  moreover have "n div 10 div 100 = n div 1000" "n div 10 div 10 = n div 100" by arith+
  moreover have "10 \<le> n" using assms by arith
  ultimately show ?thesis using showNat_step [of n] by simp
qed

lemma replicate_small:
  "replicate (Suc 0) c = [c]" "replicate 2 c = [c, c]" "replicate 3 c = [c, c, c]"
  by (simp_all add: numeral_2_eq_2 numeral_3_eq_3)

lemma appendInt_2: "n < 100 \<Longrightarrow> appendInt (int n) 2 = twoDigits n"
proof (cases "n < 10")
  case True
  then show ?thesis by (simp add: appendInt_def twoDigits_def showNat_1 digitChar_0)
next
  case False
  moreover assume "n < 100"
  ultimately show ?thesis by (simp add: appendInt_def twoDigits_def showNat_2)
qed

lemma appendInt_4:
  assumes "0 \<le> y" "y \<le> 9999"
  shows "appendInt y 4 = fourDigits (nat y)"
proof -
  define n where "n = nat y"
  have y: "y = int n" and n: "n < 10000" using assms by (simp_all add: n_def)
  consider "n < 10" | "10 \<le> n" "n < 100" | "100 \<le> n" "n < 1000" | "1000 \<le> n" "n < 10000"
    using n by linarith
  then have "appendInt (int n) 4 = fourDigits n"
  proof cases
    case 1
    then show ?thesis
      by (simp add: appendInt_def fourDigits_def showNat_1 digitChar_0 replicate_small)
  next
    case 2
    then show ?thesis
      by (simp add: appendInt_def fourDigits_def showNat_2 digitChar_0 replicate_small)
  next
    case 3
    then show ?thesis
      by (simp add: appendInt_def fourDigits_def showNat_3 digitChar_0 replicate_small)
  next
    case 4
    then show ?thesis
      by (simp add: appendInt_def fourDigits_def showNat_4)
  qed
  then show ?thesis unfolding y by simp
qed

lemma Format_layout:
  assumes "0 \<le> year t" "year t \<le> 9999" "month t < 100" "day t < 100" "hour t < 100"
    "minute t < 100" "second t < 100"
  shows "Format t = fourDigits (nat (year t)) @ ''-'' @ twoDigits (month t) @ ''-'' @
           twoDigits (day t) @ '' '' @ twoDigits (hour t) @ '':'' @ twoDigits (minute t) @
           '':'' @ twoDigits (second t)"
  using assms by (simp add: Format_def appendInt_2 appendInt_4)

lemma getFullSQL_example_quote: "getFullSQL \<lparr>Statement = Some \<lparr>SQL = ''SELECT * FROM t WHERE id=? AND name=?'',
          Vars = [VInt 42, VString ''o'brien''], Model = None, Table = [], Context = None\<rparr>,
        Error = None, Settings = []\<rparr> =
     ''SELECT * FROM t WHERE id=42 AND name='' @ [quote] @ ''o'' @ [quote, quote] @ ''brien'' @ [quote]"
  by code_simp

lemma getFullSQL_example_null: "getFullSQL \<lparr>Statement = Some \<lparr>SQL = ''? ?'', Vars = [VNil, VOther ''3.5''],
          Model = None, Table = [], Context = None\<rparr>, Error = None, Settings = []\<rparr> = ''NULL 3.5''"
  by code_simp

text \<open>
  C4: a string is put between single quotes with every single quote inside doubled; a
  byte sequence is formatted as the same text is; a time whose year has at most four
  digits is put between single quotes in the layout \<open>YYYY-MM-DD HH:MM:SS\<close>; nil is
  \<open>NULL\<close>; an integer is its decimal text and any other value its \<open>%v\<close> text,
  unquoted. The two renderings of the specification come out as stated (\<open>3.5\<close> is
  the value that \<open>%v\<close> prints as \<open>3.5\<close>).
\<close>

theorem C4_formatParam_rules:
  "formatParam (VString s) =
     [quote] @ concat (map (\<lambda>c. if c = quote then [quote, quote] else [c]) s) @ [quote] \<and>
   formatParam (VBytes s) = formatParam (VString s) \<and>
   (0 \<le> year t \<and> year t \<le> 9999 \<and> month t < 100 \<and> day t < 100 \<and> hour t < 100 \<and>
    minute t < 100 \<and> second t < 100 \<longrightarrow>
    formatParam (VTime t) =
      [quote] @ fourDigits (nat (year t)) @ ''-'' @ twoDigits (month t) @ ''-'' @
      twoDigits (day t) @ '' '' @ twoDigits (hour t) @ '':'' @ twoDigits (minute t) @
      '':'' @ twoDigits (second t) @ [quote]) \<and>
   formatParam VNil = ''NULL'' \<and>
   formatParam (VInt i) = showInt i \<and>
   formatParam (VOther v) = v \<and>
   getFullSQL \<lparr>Statement = Some \<lparr>SQL = ''SELECT * FROM t WHERE id=? AND name=?'',
          Vars = [VInt 42, VString ''o'brien''], Model = None, Table = [], Context = None\<rparr>,
        Error = None, Settings = []\<rparr> =
     ''SELECT * FROM t WHERE id=42 AND name='' @ [quote] @ ''o'' @ [quote, quote] @ ''brien'' @ [quote] \<and>
   getFullSQL \<lparr>Statement = Some \<lparr>SQL = ''? ?'', Vars = [VNil, VOther ''3.5''],
          Model = None, Table = [], Context = None\<rparr>, Error = None, Settings = []\<rparr> = ''NULL 3.5''"
proof -
  have time: "0 \<le> year t \<and> year t \<le> 9999 \<and> month t < 100 \<and> day t < 100 \<and> hour t < 100 \<and>
    minute t < 100 \<and> second t < 100 \<longrightarrow>
    formatParam (VTime t) =
      [quote] @ fourDigits (nat (year t)) @ ''-'' @ twoDigits (month t) @ ''-'' @
      twoDigits (day t) @ '' '' @ twoDigits (hour t) @ '':'' @ twoDigits (minute t) @
      '':'' @ twoDigits (second t) @ [quote]"
    by (simp add: Format_layout)
  have str: "formatParam (VString s) =
     [quote] @ concat (map (\<lambda>c. if c = quote then [quote, quote] else [c]) s) @ [quote]"
    by (simp add: ReplaceAll_single)
  show ?thesis
    using time str getFullSQL_example_quote getFullSQL_example_null by simp
qed

text \<open>
  C4 at 7 March 2024, 09:05:01, and at the string \<open>o'brien\<close>.
\<close>

theorem C4_formatParam_rules_witness:
  "(0::int) \<le> 2024 \<and> (2024::int) \<le> 9999 \<and> (3::nat) < 100 \<and> (7::nat) < 100 \<and> (9::nat) < 100 \<and>
   (5::nat) < 100 \<and> (1::nat) < 100 \<and>
   formatParam (VTime \<lparr>year = 2024, month = 3, day = 7, hour = 9, minute = 5, second = 1\<rparr>) =
     [quote] @ ''2024-03-07 09:05:01'' @ [quote] \<and>
   formatParam (VString ''o'brien'') = [quote] @ ''o'' @ [quote, quote] @ ''brien'' @ [quote]"
  using C4_formatParam_rules
          [where t = "\<lparr>year = 2024, month = 3, day = 7, hour = 9, minute = 5, second = 1\<rparr>"
             and s = "''o'brien''"]
  by (simp add: fourDigits_def twoDigits_def digitChar_def)

section \<open>The renderer against a single pass over the template\<close>

text \<open>
  Where no formatted parameter contains a \<open>?\<close>, the loop of \<open>getFullSQL\<close> and the
  single pass agree; with no parameters the template is returned as it is.
\<close>

lemma Index_single_absent: "c \<notin> set s \<Longrightarrow> Index s [c] = - 1"
  by (induction s) auto

lemma Index_single_present:
  "c \<notin> set pre \<Longrightarrow> Index (pre @ c # post) [c] = int (length pre)"
  by (induction pre) auto

lemma render_spec_Nil [simp]: "render_spec t [] = t"
  by (cases t) simp_all

lemma render_spec_skip:
  "CHR ''?'' \<notin> set pre \<Longrightarrow> render_spec (pre @ t) ps = pre @ render_spec t ps"
proof (induction pre)
  case Nil
  show ?case by simp
next
  case (Cons x xs)
  then show ?case by (cases ps) auto
qed

lemma substituteLoop_step:
  assumes "CHR ''?'' \<notin> set u"
  shows "substituteLoop (u @ CHR ''?'' # post) (p # ps) = substituteLoop (u @ formatParam p @ post) ps"
  using Index_single_present [OF assms, of post] by (simp add: Let_def)

lemma render_spec_no_placeholder: "CHR ''?'' \<notin> set t \<Longrightarrow> render_spec t ps = t"
  using render_spec_skip [of t "[]" ps] by simp

lemma substituteLoop_render_spec_gen:
  "CHR ''?'' \<notin> set a \<Longrightarrow> \<forall>p \<in> set ps. CHR ''?'' \<notin> set (formatParam p) \<Longrightarrow>
   substituteLoop (a @ t) ps = a @ render_spec t ps"
proof (induction ps arbitrary: a t)
  case Nil
  show ?case by simp
next
  case (Cons p ps)
  show ?case
  proof (cases "CHR ''?'' \<in> set t")
    case False
    with Cons.prems(1) have "CHR ''?'' \<notin> set (a @ t)" by simp
    then have "Index (a @ t) ''?'' = - 1" by (rule Index_single_absent)
    with False show ?thesis by (simp add: render_spec_no_placeholder)
  next
    case True
    then obtain pre post where t: "t = pre @ CHR ''?'' # post" and pre: "CHR ''?'' \<notin> set pre"
      by (meson split_list_first)
    have apre: "CHR ''?'' \<notin> set (a @ pre)" using Cons.prems(1) pre by simp
    have fp: "CHR ''?'' \<notin> set (formatParam p)" using Cons.prems(2) by simp
    have a': "CHR ''?'' \<notin> set (a @ pre @ formatParam p)" using apre fp by simp
    have rest: "\<forall>q \<in> set ps. CHR ''?'' \<notin> set (formatParam q)" using Cons.prems(2) by simp
    have "substituteLoop (a @ t) (p # ps) = substituteLoop ((a @ pre @ formatParam p) @ post) ps"
      using substituteLoop_step [OF apre, of post p ps] by (simp add: t)
    also have "\<dots> = (a @ pre @ formatParam p) @ render_spec post ps"
      by (rule Cons.IH [OF a' rest])
    also have "\<dots> = a @ render_spec t (p # ps)"
      using pre by (simp add: t render_spec_skip)
    finally show ?thesis .
  qed
qed

lemma substituteLoop_render_spec:
  "\<forall>p \<in> set ps. CHR ''?'' \<notin> set (formatParam p) \<Longrightarrow> substituteLoop t ps = render_spec t ps"
  using substituteLoop_render_spec_gen [of "[]" ps t] by simp

lemma getFullSQL_render_spec:
  "Statement db = Some st \<Longrightarrow> \<forall>p \<in> set (Vars st). CHR ''?'' \<notin> set (formatParam p) \<Longrightarrow>
   getFullSQL db = render_spec (SQL st) (Vars st)"
  by (simp add: getFullSQL_def substituteLoop_render_spec)

lemma getFullSQL_no_params:
  "Statement db = Some st \<Longrightarrow> Vars st = [] \<Longrightarrow> getFullSQL db = SQL st"
  by (simp add: getFullSQL_def)

text \<open>
  C3 fails on the code: each round of the loop searches the whole text so far, so a
  \<open>?\<close> inside a value that was just substituted is found before the next placeholder of
  the template. With the template \<open>a=? AND b=?\<close> and the parameters \<open>x?y\<close> and
  \<open>1\<close>, the second parameter lands inside the first value and the second placeholder
  stays; the left-to-right pass of the specification gives the other text.
\<close>

theorem C3_placeholder_inside_value_is_replaced:
  "getFullSQL \<lparr>Statement = Some \<lparr>SQL = ''a=? AND b=?'', Vars = [VString ''x?y'', VInt 1],
          Model = None, Table = [], Context = None\<rparr>, Error = None, Settings = []\<rparr> =
     ''a='x1y' AND b=?'' \<and>
   render_spec ''a=? AND b=?'' [VString ''x?y'', VInt 1] = ''a='x?y' AND b=1''"
  by code_simp

end
